theory Spec2Isabelle
  imports Complex_Main "HOL-Library.Multiset"
begin

section \<open>Kinematics: \<open>Planet\<close> and \<open>Moon\<close>\<close>

text \<open>
  The classes \<open>Planet\<close> and \<open>Moon\<close> of \<open>solar_app.py\<close> become records. In the
  kinematics, the projection, the hit test and the zoom, Python's numbers are modelled as
  reals, so \<open>math.cos\<close>, \<open>math.sin\<close> and \<open>math.sqrt\<close> are the real functions and
  rounding is not part of the model there; the shading, which truncates floats to
  integers, is modelled in double arithmetic. Attribute names are prefixed
  with the class where a bare name (\<open>x\<close>, \<open>angle\<close>, \<open>radius\<close>) would shadow variables.
  Descriptive attributes that no modelled method reads (facts, colours, scientific
  data, images) are left out. A \<open>Moon\<close> holds a reference to its planet; every moon is
  constructed in \<open>initialize_moons\<close> with the planet whose \<open>moon_objects\<close> list it is
  appended to, so the reference is the owner and the model passes the owner to the
  moon's method. A \<open>Moon\<close> has attributes \<open>x\<close> and \<open>y\<close> and no \<open>z\<close>.
\<close>

record moon =
  moon_name :: string
  moon_radius :: real
  moon_distance :: real
  moon_orbital_speed :: real
  moon_angle :: real
  moon_initial_angle :: real
  moon_x :: real
  moon_y :: real

record planet =
  planet_name :: string
  planet_radius :: real
  distance_from_sun :: real
  orbital_speed :: real
  orbital_inclination :: real
  planet_angle :: real
  initial_angle :: real
  planet_x :: real
  planet_y :: real
  planet_z :: real
  rotation_angle :: real
  moon_objects :: "moon list"

text \<open>\<open>math.radians\<close>: degrees to radians.\<close>

definition radians :: "real \<Rightarrow> real" where
  "radians d = d * pi / 180"

text \<open>
  \<open>Moon.update_position\<close>; the first argument is \<open>self.planet\<close>, read after the planet's
  own position has been written.
\<close>

definition moon_update_position :: "planet \<Rightarrow> moon \<Rightarrow> real \<Rightarrow> moon" where
  "moon_update_position owner m ts =
     (let a = moon_angle m + moon_orbital_speed m * ts
      in m\<lparr>moon_angle := a,
            moon_x := planet_x owner + moon_distance m * cos a,
            moon_y := planet_y owner + moon_distance m * sin a\<rparr>)"

text \<open>\<open>Planet.update_position\<close>: the assignments in the source's order, then the loop over the moons.\<close>

definition planet_update_position :: "planet \<Rightarrow> real \<Rightarrow> planet" where
  "planet_update_position p ts =
     (let p1 = p\<lparr>planet_angle := planet_angle p + orbital_speed p * ts\<rparr>;
          p2 = p1\<lparr>rotation_angle := rotation_angle p1 + 0.02 * ts\<rparr>;
          p3 = p2\<lparr>planet_x := distance_from_sun p2 * cos (planet_angle p2)\<rparr>;
          p4 = p3\<lparr>planet_y := distance_from_sun p3 * sin (planet_angle p3)
                                  * cos (radians (orbital_inclination p3))\<rparr>;
          p5 = p4\<lparr>planet_z := distance_from_sun p4 * sin (planet_angle p4)
                                  * sin (radians (orbital_inclination p4))\<rparr>
      in p5\<lparr>moon_objects := map (\<lambda>m. moon_update_position p5 m ts) (moon_objects p5)\<rparr>)"

text \<open>\<open>Moon.reset_position\<close> and \<open>Planet.reset_position\<close>.\<close>

definition moon_reset_position :: "moon \<Rightarrow> moon" where
  "moon_reset_position m = m\<lparr>moon_angle := moon_initial_angle m\<rparr>"

definition planet_reset_position :: "planet \<Rightarrow> planet" where
  "planet_reset_position p =
     (let p1 = p\<lparr>planet_angle := initial_angle p\<rparr>;
          p2 = p1\<lparr>rotation_angle := 0\<rparr>
      in p2\<lparr>moon_objects := map moon_reset_position (moon_objects p2)\<rparr>)"

text \<open>A finite sequence of \<open>update_position\<close> calls, one per time scale of the list.\<close>

definition advance_all :: "planet \<Rightarrow> real list \<Rightarrow> planet" where
  "advance_all p tss = foldl planet_update_position p tss"

text \<open>
  The part of a body's state that the orbit is driven by: its angle, its spin and the
  angles of its moons.
\<close>

definition orbit_state :: "planet \<Rightarrow> real \<times> real \<times> real list" where
  "orbit_state p = (planet_angle p, rotation_angle p, map moon_angle (moon_objects p))"

text \<open>
  Earth as \<open>initialize_planets\<close> and \<open>initialize_moons\<close> build it (radius 9, distance 150,
  speed 0.02, inclination 0, one moon at distance 20 with speed 0.05), with both random
  starting angles drawn as 0.
\<close>

definition the_moon :: moon where
  "the_moon = \<lparr>moon_name = ''Moon'', moon_radius = 3, moon_distance = 20,
               moon_orbital_speed = 0.05, moon_angle = 0, moon_initial_angle = 0,
               moon_x = 0, moon_y = 0\<rparr>"

definition earth :: planet where
  "earth = \<lparr>planet_name = ''Earth'', planet_radius = 9, distance_from_sun = 150,
            orbital_speed = 0.02, orbital_inclination = 0, planet_angle = 0,
            initial_angle = 0, planet_x = 0, planet_y = 0, planet_z = 0,
            rotation_angle = 0, moon_objects = [the_moon]\<rparr>"


section \<open>Python numbers\<close>

text \<open>
  Rounding to the nearest integer, ties to the even one, as \<open>timedelta\<close> rounds a
  fraction of a microsecond.
\<close>

definition round_half_even :: "real \<Rightarrow> int" where
  "round_half_even v =
     (let f = \<lfloor>v\<rfloor>
      in if v - of_int f < 1/2 then f
         else if v - of_int f > 1/2 then f + 1
         else if even f then f else f + 1)"

text \<open>Python's \<open>int()\<close> of a float truncates towards zero.\<close>

definition py_int :: "real \<Rightarrow> int" where
  "py_int v = (if 0 \<le> v then \<lfloor>v\<rfloor> else \<lceil>v\<rceil>)"

text \<open>
  Where a float is turned into an integer the rounding of the float arithmetic decides
  the result, and the arithmetic is modelled as it is: a finite double is a real number,
  and every operation on floats is the exact operation followed by \<open>round_double\<close>,
  the rounding to the nearest double, ties to the even mantissa. A double has a
  mantissa of 53 bits; the exponent of a normal double is at least -1022, below that the
  spacing of the doubles stays \<open>2 ^ -1074\<close>. Values beyond the largest finite double,
  where Python gives \<open>inf\<close> or raises, do not arise in what is computed with
  \<open>round_double\<close> here: every operand is at most the size of an image or a colour
  channel.
\<close>

definition double_exponent :: "real \<Rightarrow> int" where
  "double_exponent v = max \<lfloor>log 2 \<bar>v\<bar>\<rfloor> (- 1022)"

definition round_double :: "real \<Rightarrow> real" where
  "round_double v =
     (if v = 0 then 0
      else (let q = 2 powr of_int (double_exponent v - 52)
            in of_int (round_half_even (v / q)) * q))"


section \<open>The application state: \<open>SolarSystemExplorer\<close>\<close>

text \<open>
  The attributes of \<open>SolarSystemExplorer\<close> that the simulation, the projection, the
  hit test and the scheduler read or write. \<open>current_date\<close> is a \<open>datetime\<close>, counted
  in microseconds since \<open>datetime.min\<close>, the first instant of year 1. The
  canvas is modelled by the list of frames drawn so far, one per call of
  \<open>draw_solar_system\<close>, the newest last. Every thread ever created for \<open>animate\<close> has
  an entry in \<open>threads\<close>; \<open>animation_thread\<close> is the handle the application keeps,
  an index into that list. \<open>pending_gui\<close> counts the \<open>update_gui\<close> callbacks queued by
  \<open>root.after\<close> and not yet run.
\<close>

datatype thread_status = Looping | Leaving | Finished

record sprite =
  sprite_name :: string
  screen_x :: real
  screen_y :: real
  screen_radius :: real
  shadow :: bool

datatype drawing = Body sprite | Satellite string real real real

record frame =
  frame_zoom :: real
  frame_center_x :: real
  frame_center_y :: real
  drawn :: "drawing list"

record explorer =
  is_running :: bool
  zoom_factor :: real
  center_x :: real
  center_y :: real
  time_scale :: real
  current_date :: int
  show_orbits :: bool
  show_names :: bool
  show_moons :: bool
  show_3d :: bool
  depth_factor :: real
  planets :: "planet list"
  animation_thread :: "nat option"
  threads :: "thread_status list"
  pending_gui :: nat
  frames :: "frame list"

subsection \<open>Projection and drawing\<close>

text \<open>
  \<open>draw_planet\<close>: the screen position and radius it computes, and whether it draws the
  drop shadow. The shapes drawn at that position are not modelled.
\<close>

definition draw_planet :: "explorer \<Rightarrow> planet \<Rightarrow> sprite" where
  "draw_planet s p =
     (let sx = center_x s + planet_x p * zoom_factor s;
          sy = center_y s + planet_y p * zoom_factor s;
          sy = (if show_3d s then sy + planet_z p * depth_factor s * zoom_factor s else sy);
          r = planet_radius p * zoom_factor s
      in \<lparr>sprite_name = planet_name p, screen_x = sx, screen_y = sy, screen_radius = r,
          shadow = (show_3d s \<and> planet_z p > 0)\<rparr>)"

text \<open>\<open>draw_moon\<close>: radius (at least 1) and screen position.\<close>

definition draw_moon :: "explorer \<Rightarrow> moon \<Rightarrow> drawing" where
  "draw_moon s m =
     (let r = moon_radius m * zoom_factor s;
          r = (if r < 1 then 1 else r)
      in Satellite (moon_name m) (center_x s + moon_x m * zoom_factor s)
                   (center_y s + moon_y m * zoom_factor s) r)"

text \<open>
  Python's built-in \<open>sorted(xs, key=f)\<close> returns the elements in ascending order of
  their keys and is stable; that fixes its result, which is the one insertion sort
  computes.
\<close>

definition py_sorted :: "('a \<Rightarrow> real) \<Rightarrow> 'a list \<Rightarrow> 'a list" where
  "py_sorted key xs = sort_key key xs"

text \<open>The draw order of \<open>draw_solar_system\<close>: \<open>sorted(self.planets, key=lambda p: p.z if self.show_3d else 0)\<close>.\<close>

definition planets_sorted :: "explorer \<Rightarrow> planet list" where
  "planets_sorted s = py_sorted (\<lambda>p. if show_3d s then planet_z p else 0) (planets s)"

text \<open>
  \<open>draw_solar_system\<close>: clears the canvas and draws a new frame, the planets in the
  sorted order, each followed by its moons when \<open>show_moons\<close> is set. Starfield, orbit
  guides and the sun do not depend on the bodies and are left out of the frame.
\<close>

definition render :: "explorer \<Rightarrow> frame" where
  "render s =
     \<lparr>frame_zoom = zoom_factor s, frame_center_x = center_x s, frame_center_y = center_y s,
      drawn = concat (map (\<lambda>p. Body (draw_planet s p)
                                 # (if show_moons s then map (draw_moon s) (moon_objects p) else []))
                          (planets_sorted s))\<rparr>"

definition draw_solar_system :: "explorer \<Rightarrow> explorer" where
  "draw_solar_system s = s\<lparr>frames := frames s @ [render s]\<rparr>"

subsection \<open>Hit test\<close>




subsection \<open>View-state mutators and the scheduler\<close>

text \<open>
  The state at the end of \<open>__init__\<close> for the value \<open>now\<close> of \<open>datetime.now()\<close> and a
  given list of constructed planets: the defaults, no thread, and the initial draw.
\<close>

definition init_explorer :: "int \<Rightarrow> planet list \<Rightarrow> explorer" where
  "init_explorer now ps =
     draw_solar_system
       \<lparr>is_running = False, zoom_factor = 1, center_x = 700, center_y = 400,
        time_scale = 1, current_date = now,
        show_orbits = True, show_names = True, show_moons = True, show_3d = True,
        depth_factor = 0.5, planets = ps, animation_thread = None, threads = [],
        pending_gui = 0, frames = []\<rparr>"

definition set_time_scale :: "real \<Rightarrow> explorer \<Rightarrow> explorer" where
  "set_time_scale v s = s\<lparr>time_scale := v\<rparr>"

definition thread_is_alive :: "explorer \<Rightarrow> nat \<Rightarrow> bool" where
  "thread_is_alive s i = (i < length (threads s) \<and> threads s ! i \<noteq> Finished)"

definition start_animation :: "explorer \<Rightarrow> explorer" where
  "start_animation s =
     (if \<not> is_running s then
        (let s1 = s\<lparr>is_running := True\<rparr>
         in if (case animation_thread s1 of None \<Rightarrow> True | Some i \<Rightarrow> \<not> thread_is_alive s1 i)
            then s1\<lparr>animation_thread := Some (length (threads s1)),
                    threads := threads s1 @ [Looping]\<rparr>
            else s1)
      else s)"

definition pause_animation :: "explorer \<Rightarrow> explorer" where
  "pause_animation s = s\<lparr>is_running := False\<rparr>"

definition reset_view :: "explorer \<Rightarrow> explorer" where
  "reset_view s =
     draw_solar_system
       (s\<lparr>zoom_factor := 1, center_x := 700, center_y := 400,
          planets := map planet_reset_position (planets s)\<rparr>)"

definition zoom_in :: "explorer \<Rightarrow> explorer" where
  "zoom_in s = draw_solar_system (s\<lparr>zoom_factor := zoom_factor s * 1.2\<rparr>)"

definition zoom_out :: "explorer \<Rightarrow> explorer" where
  "zoom_out s = draw_solar_system (s\<lparr>zoom_factor := zoom_factor s / 1.2\<rparr>)"

definition on_mouse_wheel :: "int \<Rightarrow> explorer \<Rightarrow> explorer" where
  "on_mouse_wheel delta s =
     draw_solar_system
       (if delta > 0 then s\<lparr>zoom_factor := zoom_factor s * 1.1\<rparr>
        else s\<lparr>zoom_factor := zoom_factor s / 1.1\<rparr>)"

definition toggle_orbits :: "bool \<Rightarrow> explorer \<Rightarrow> explorer" where
  "toggle_orbits v s = draw_solar_system (s\<lparr>show_orbits := v\<rparr>)"

definition toggle_names :: "bool \<Rightarrow> explorer \<Rightarrow> explorer" where
  "toggle_names v s = draw_solar_system (s\<lparr>show_names := v\<rparr>)"

definition toggle_moons :: "bool \<Rightarrow> explorer \<Rightarrow> explorer" where
  "toggle_moons v s = draw_solar_system (s\<lparr>show_moons := v\<rparr>)"

definition toggle_3d :: "bool \<Rightarrow> explorer \<Rightarrow> explorer" where
  "toggle_3d v s = draw_solar_system (s\<lparr>show_3d := v\<rparr>)"

text \<open>
  \<open>timedelta(days=d)\<close>: the duration in microseconds, rounded, and \<open>OverflowError\<close> when
  it is more than 999999999 days long. \<open>datetime + timedelta\<close>: \<open>OverflowError\<close> when the
  sum leaves the years 1 to 9999, the last instant being \<open>datetime.max\<close>.
\<close>

datatype py_error = OverflowError

definition timedelta_days :: "real \<Rightarrow> py_error + int" where
  "timedelta_days d =
     (let us = round_half_even (d * 86400000000)
      in if \<bar>us div 86400000000\<bar> > 999999999 then Inl OverflowError else Inr us)"

definition datetime_max :: int where
  "datetime_max = 315537897599999999"

definition datetime_add :: "int \<Rightarrow> int \<Rightarrow> py_error + int" where
  "datetime_add t us =
     (if 0 \<le> t + us \<and> t + us \<le> datetime_max then Inr (t + us) else Inl OverflowError)"

text \<open>
  One pass of the body of \<open>animate\<close>'s loop: every planet advances by the time scale,
  the date by as many days, and an \<open>update_gui\<close> callback is queued. The date
  arithmetic can raise; the planets have moved by then, and the state is returned
  with the error.
\<close>

definition tick :: "explorer \<Rightarrow> explorer \<times> py_error option" where
  "tick s =
     (let s1 = s\<lparr>planets := map (\<lambda>p. planet_update_position p (time_scale s)) (planets s)\<rparr>
      in case timedelta_days (time_scale s1) of
           Inl e \<Rightarrow> (s1, Some e)
         | Inr us \<Rightarrow>
             (case datetime_add (current_date s1) us of
                Inl e \<Rightarrow> (s1, Some e)
              | Inr t \<Rightarrow> (s1\<lparr>current_date := t, pending_gui := Suc (pending_gui s1)\<rparr>, None)))"

text \<open>
  Thread \<open>i\<close> is scheduled. A looping thread tests \<open>self.is_running\<close>: it runs the loop
  body, or leaves the loop. An error raised in the loop body is not caught and ends the
  thread at once. A thread that has left the loop ends, and only then stops being
  alive.
\<close>

definition animate_step :: "nat \<Rightarrow> explorer \<Rightarrow> explorer" where
  "animate_step i s =
     (if i < length (threads s) then
        (case threads s ! i of
           Looping \<Rightarrow>
             (if is_running s then
                (case tick s of
                   (s1, None) \<Rightarrow> s1
                 | (s1, Some e) \<Rightarrow> s1\<lparr>threads := (threads s1)[i := Finished]\<rparr>)
              else s\<lparr>threads := (threads s)[i := Leaving]\<rparr>)
         | Leaving \<Rightarrow> s\<lparr>threads := (threads s)[i := Finished]\<rparr>
         | Finished \<Rightarrow> s)
      else s)"

text \<open>\<open>update_gui\<close>, run by the main loop for a queued callback.\<close>

definition update_gui :: "explorer \<Rightarrow> explorer" where
  "update_gui s =
     (if pending_gui s > 0 then draw_solar_system (s\<lparr>pending_gui := pending_gui s - 1\<rparr>)
      else s)"

text \<open>
  What can happen to the application: the user's commands, handled one at a time by
  the main loop, and the steps of the animation threads in between.
\<close>

datatype event =
    StartAnimation | PauseAnimation | ResetView
  | ZoomIn | ZoomOut | MouseWheel int
  | SetTimeScale real
  | ToggleOrbits bool | ToggleNames bool | ToggleMoons bool | Toggle3d bool
  | AnimateStep nat | UpdateGui

fun handle :: "explorer \<Rightarrow> event \<Rightarrow> explorer" where
  "handle s StartAnimation = start_animation s"
| "handle s PauseAnimation = pause_animation s"
| "handle s ResetView = reset_view s"
| "handle s ZoomIn = zoom_in s"
| "handle s ZoomOut = zoom_out s"
| "handle s (MouseWheel delta) = on_mouse_wheel delta s"
| "handle s (SetTimeScale v) = set_time_scale v s"
| "handle s (ToggleOrbits v) = toggle_orbits v s"
| "handle s (ToggleNames v) = toggle_names v s"
| "handle s (ToggleMoons v) = toggle_moons v s"
| "handle s (Toggle3d v) = toggle_3d v s"
| "handle s (AnimateStep i) = animate_step i s"
| "handle s UpdateGui = update_gui s"

definition run :: "explorer \<Rightarrow> event list \<Rightarrow> explorer" where
  "run s es = foldl handle s es"

text \<open>The number of threads inside the loop of \<open>animate\<close>.\<close>

definition running_loops :: "explorer \<Rightarrow> nat" where
  "running_loops s = length (filter (\<lambda>t. t = Looping) (threads s))"

text \<open>
  The scheduler's invariant: a thread that has not finished is the one the handle
  \<open>animation_thread\<close> refers to.
\<close>

definition one_handle :: "explorer \<Rightarrow> bool" where
  "one_handle s =
     (\<forall>i < length (threads s). threads s ! i \<noteq> Finished \<longrightarrow> animation_thread s = Some i)"


text \<open>The bodies of a frame, in the order in which they were drawn.\<close>

fun bodies_of :: "drawing list \<Rightarrow> sprite list" where
  "bodies_of [] = []"
| "bodies_of (Body sp # ds) = sp # bodies_of ds"
| "bodies_of (Satellite n sx sy r # ds) = bodies_of ds"

text \<open>A start date for examples: \<open>datetime(2026, 1, 1)\<close>.\<close>

definition new_year_2026 :: int where
  "new_year_2026 = 63902822400000000"


section \<open>Shading: \<open>create_texture_map\<close>\<close>

text \<open>
  An RGBA image: its size and the pixel access object of \<open>img.load()\<close>, a function from
  \<open>(x, y)\<close> to the four channels, which are integers.
\<close>

type_synonym pixel = "int \<times> int \<times> int \<times> int"

record image =
  img_width :: nat
  img_height :: nat
  img_pixels :: "nat \<times> nat \<Rightarrow> pixel"

text \<open>
  The body of the two loops, for the pixel at \<open>(x, y)\<close> of an image of size \<open>w\<close> by \<open>h\<close>.
  \<open>width / 2\<close> is a division of integers with a float result; \<open>x - width / 2\<close> and
  \<open>r * intensity\<close> convert the integer to a float first; \<open>0.7\<close> and \<open>0.3\<close> are the doubles
  nearest to 7/10 and 3/10.
\<close>

definition shade_pixel :: "nat \<Rightarrow> nat \<Rightarrow> nat \<Rightarrow> nat \<Rightarrow> pixel \<Rightarrow> pixel" where
  "shade_pixel w h x y px =
     (case px of (r, g, b, a) \<Rightarrow>
        (let dx = round_double (round_double (round_double (real x) - round_double (real w / 2))
                                / round_double (real w / 2));
             dy = round_double (round_double (round_double (real y) - round_double (real h / 2))
                                / round_double (real h / 2));
             distance = round_double (sqrt (round_double (round_double (dx * dx)
                                                          + round_double (dy * dy))))
         in if distance \<le> 1 then
              (let intensity = round_double (1 - round_double (distance * round_double (7/10)));
                   intensity = max (round_double (3/10)) (min 1 intensity)
               in (py_int (round_double (round_double (real_of_int r) * intensity)),
                   py_int (round_double (round_double (real_of_int g) * intensity)),
                   py_int (round_double (round_double (real_of_int b) * intensity)), a))
            else (0, 0, 0, 0)))"

text \<open>The inner loop \<open>for x in range(width)\<close> of row \<open>y\<close>, writing each pixel in place.\<close>

definition shade_row :: "nat \<Rightarrow> nat \<Rightarrow> nat \<Rightarrow> image \<Rightarrow> image" where
  "shade_row w h y img =
     foldl (\<lambda>im x. im\<lparr>img_pixels := (img_pixels im)((x, y) :=
                         shade_pixel w h x y (img_pixels im (x, y)))\<rparr>)
           img [0..<w]"

text \<open>
  \<open>create_texture_map\<close> for an image that is already RGBA. The source returns \<open>None\<close>
  from its \<open>except\<close> branch; no statement of the loops raises on such an image, so the
  model always returns the image.
\<close>

definition create_texture_map :: "image \<Rightarrow> image option" where
  "create_texture_map img =
     (let w = img_width img; h = img_height img
      in Some (foldl (\<lambda>im y. shade_row w h y im) img [0..<h]))"

text \<open>The pixel of the returned texture at \<open>(x, y)\<close>.\<close>

definition texture_pixel :: "image \<Rightarrow> nat \<Rightarrow> nat \<Rightarrow> pixel option" where
  "texture_pixel img x y =
     (case create_texture_map img of None \<Rightarrow> None | Some out \<Rightarrow> Some (img_pixels out (x, y)))"








definition brown12 :: image where
  "brown12 = \<lparr>img_width = 12, img_height = 12, img_pixels = (\<lambda>_. (36, 72, 108, 200))\<rparr>"


section \<open>Construction\<close>

text \<open>
  \<open>Planet.__init__\<close> and \<open>Moon.__init__\<close>. The starting angle is the value returned by the
  call \<open>random.uniform(0, 2 * math.pi)\<close> of the standard library; the generator is outside
  the program, and the value it returns is the first argument here, the catalog values
  follow it. A planet is constructed without moons; \<open>initialize_moons\<close> appends them.
\<close>

definition new_planet :: "real \<Rightarrow> string \<Rightarrow> real \<Rightarrow> real \<Rightarrow> real \<Rightarrow> real \<Rightarrow> planet" where
  "new_planet start_angle name radius distance speed inclination =
     \<lparr>planet_name = name, planet_radius = radius, distance_from_sun = distance,
      orbital_speed = speed, orbital_inclination = inclination,
      planet_angle = start_angle, initial_angle = start_angle,
      planet_x = 0, planet_y = 0, planet_z = 0, rotation_angle = 0,
      moon_objects = []\<rparr>"

definition new_moon :: "real \<Rightarrow> string \<Rightarrow> real \<Rightarrow> real \<Rightarrow> real \<Rightarrow> moon" where
  "new_moon start_angle name radius distance speed =
     \<lparr>moon_name = name, moon_radius = radius, moon_distance = distance,
      moon_orbital_speed = speed, moon_angle = start_angle, moon_initial_angle = start_angle,
      moon_x = 0, moon_y = 0\<rparr>"


section \<open>Properties of the kinematics\<close>

lemma update_position_initial_angle:
  "initial_angle (planet_update_position p ts) = initial_angle p"
  by (simp add: planet_update_position_def Let_def)

lemma update_position_moon_initial_angles:
  "map moon_initial_angle (moon_objects (planet_update_position p ts))
     = map moon_initial_angle (moon_objects p)"
  by (simp add: planet_update_position_def moon_update_position_def Let_def comp_def)

lemma advance_all_initial_angle:
  "initial_angle (advance_all p tss) = initial_angle p"
  unfolding advance_all_def
  by (induction tss arbitrary: p) (simp_all add: update_position_initial_angle)

lemma advance_all_moon_initial_angles:
  "map moon_initial_angle (moon_objects (advance_all p tss))
     = map moon_initial_angle (moon_objects p)"
  unfolding advance_all_def
  by (induction tss arbitrary: p) (simp_all add: update_position_moon_initial_angles)

lemma orbit_state_reset:
  "orbit_state (planet_reset_position p)
     = (initial_angle p, 0, map moon_initial_angle (moon_objects p))"
  by (simp add: orbit_state_def planet_reset_position_def moon_reset_position_def
      Let_def comp_def)

lemma reset_position_idem:
  "planet_reset_position (planet_reset_position p) = planet_reset_position p"
  by (simp add: planet_reset_position_def moon_reset_position_def Let_def comp_def)

text \<open>
  Claim C1. For every body and every time scale, \<open>update_position\<close> adds
  \<open>orbital_speed * ts\<close> to the angle, then sets \<open>x = distance * cos angle\<close>,
  \<open>y = distance * sin angle * cos inclination\<close> and \<open>z = distance * sin angle * sin inclination\<close>
  with the inclination converted from degrees, and advances every moon: the moon's angle
  grows by its own speed times \<open>ts\<close> and its position is the planet's new \<open>(x, y)\<close> plus
  \<open>(dist * cos angle', dist * sin angle')\<close>. The moon record has no \<open>z\<close>.
\<close>

theorem update_position_contract:
  fixes p :: planet and ts :: real
  defines "a \<equiv> planet_angle p + orbital_speed p * ts"
  defines "q \<equiv> planet_update_position p ts"
  shows "planet_angle q = a
       \<and> planet_x q = distance_from_sun p * cos a
       \<and> planet_y q = distance_from_sun p * sin a * cos (orbital_inclination p * pi / 180)
       \<and> planet_z q = distance_from_sun p * sin a * sin (orbital_inclination p * pi / 180)
       \<and> moon_objects q =
           map (\<lambda>m. m\<lparr>moon_angle := moon_angle m + moon_orbital_speed m * ts,
                       moon_x := planet_x q
                                 + moon_distance m * cos (moon_angle m + moon_orbital_speed m * ts),
                       moon_y := planet_y q
                                 + moon_distance m * sin (moon_angle m + moon_orbital_speed m * ts)\<rparr>)
               (moon_objects p)"
  unfolding a_def q_def
  by (simp add: planet_update_position_def moon_update_position_def radians_def Let_def)

lemma cos_fiftieth_pos: "0 < cos (1/50 :: real)"
proof -
  have "(1/50 :: real) < pi / 2" using pi_ge_two by simp
  then show ?thesis by (simp add: cos_gt_zero)
qed

text \<open>
  Claim C6, as amended. After any finite sequence of \<open>update_position\<close> calls,
  \<open>reset_position\<close> leaves the body with \<open>angle = initial_angle\<close> and \<open>rotation_angle = 0\<close>
  and every moon with \<open>angle = initial_angle\<close>: the same angles and spin as a reset with
  no call in between. A second reset changes nothing.
\<close>

theorem reset_after_advance_orbit_state:
  "planet_angle (planet_reset_position (advance_all p tss)) = initial_angle p
   \<and> rotation_angle (planet_reset_position (advance_all p tss)) = 0
   \<and> map moon_angle (moon_objects (planet_reset_position (advance_all p tss)))
       = map moon_initial_angle (moon_objects p)
   \<and> orbit_state (planet_reset_position (advance_all p tss))
       = orbit_state (planet_reset_position p)
   \<and> planet_reset_position (planet_reset_position q) = planet_reset_position q"
proof -
  have os: "orbit_state (planet_reset_position (advance_all p tss))
              = (initial_angle p, 0, map moon_initial_angle (moon_objects p))"
    by (simp add: orbit_state_reset advance_all_initial_angle advance_all_moon_initial_angles)
  then have fields:
    "planet_angle (planet_reset_position (advance_all p tss)) = initial_angle p"
    "rotation_angle (planet_reset_position (advance_all p tss)) = 0"
    "map moon_angle (moon_objects (planet_reset_position (advance_all p tss)))
       = map moon_initial_angle (moon_objects p)"
    by (simp_all add: orbit_state_def)
  from os have same: "orbit_state (planet_reset_position (advance_all p tss))
              = orbit_state (planet_reset_position p)"
    by (simp add: orbit_state_reset)
  from fields same reset_position_idem show ?thesis by blast
qed

text \<open>
  Claim C6 as written says that the reset after the calls gives the same state as a
  reset alone. \<open>reset_position\<close> does not write \<open>x\<close>, \<open>y\<close>, \<open>z\<close>: for Earth, one
  \<open>update_position(1)\<close> moves \<open>x\<close> from 0 to \<open>150 * cos 0.02\<close>, and the reset keeps it.
\<close>

theorem reset_after_advance_not_same_state:
  "planet_reset_position (advance_all earth [1]) \<noteq> planet_reset_position earth"
proof
  assume eq: "planet_reset_position (advance_all earth [1]) = planet_reset_position earth"
  have l: "planet_x (planet_reset_position (advance_all earth [1])) = 150 * cos (1/50)"
    by (simp add: planet_reset_position_def advance_all_def planet_update_position_def
        earth_def Let_def)
  have r: "planet_x (planet_reset_position earth) = 0"
    by (simp add: planet_reset_position_def earth_def Let_def)
  from eq l r have "150 * cos (1/50 :: real) = 0" by simp
  with cos_fiftieth_pos show False by simp
qed


text \<open>
  What the constructors fix: the angle and its snapshot are the value the generator
  returned, whatever the catalog values, a reset after any updates returns to it, and
  the position is the origin for every such value.
\<close>

lemma construction_start:
  "planet_angle (new_planet a n r d sp inc) = a
   \<and> initial_angle (new_planet a n r d sp inc) = a
   \<and> planet_angle (planet_reset_position (advance_all (new_planet a n r d sp inc) tss))
       = a
   \<and> planet_x (new_planet a n r d sp inc) = 0
   \<and> planet_y (new_planet a n r d sp inc) = 0
   \<and> planet_z (new_planet a n r d sp inc) = 0
   \<and> moon_angle (new_moon a' mn mr md ms) = a'
   \<and> moon_initial_angle (new_moon a' mn mr md ms) = a'
   \<and> moon_x (new_moon a' mn mr md ms) = 0
   \<and> moon_y (new_moon a' mn mr md ms) = 0"
proof -
  have "initial_angle (advance_all (new_planet a n r d sp inc) tss) = a"
    by (simp add: advance_all_initial_angle) (simp add: new_planet_def)
  then have "planet_angle (planet_reset_position
               (advance_all (new_planet a n r d sp inc) tss)) = a"
    by (simp add: planet_reset_position_def Let_def)
  then show ?thesis by (simp add: new_planet_def new_moon_def)
qed


section \<open>Properties of the projection, the draw order and the hit test\<close>

text \<open>
  Claim C2. For every body, zoom factor and centre, \<open>draw_planet\<close> puts the body at
  \<open>screen_x = center_x + x * zoom\<close> and \<open>screen_y = center_y + y * zoom\<close>, with
  \<open>z * depth_factor * zoom\<close> added to \<open>screen_y\<close> exactly when the 3D mode is on, and
  draws it with radius \<open>radius * zoom\<close>. With zoom 2, centre (700, 400) and \<open>x = 150\<close>
  the screen x is 1000.
\<close>

theorem draw_planet_projection:
  "screen_x (draw_planet s p) = center_x s + planet_x p * zoom_factor s
   \<and> screen_y (draw_planet s p)
       = center_y s + planet_y p * zoom_factor s
         + (if show_3d s then planet_z p * depth_factor s * zoom_factor s else 0)
   \<and> screen_radius (draw_planet s p) = planet_radius p * zoom_factor s
   \<and> screen_x (draw_planet (s\<lparr>zoom_factor := 2, center_x := 700, center_y := 400\<rparr>)
                            (p\<lparr>planet_x := 150\<rparr>)) = 1000"
  by (simp add: draw_planet_def Let_def)

lemma bodies_of_moons: "bodies_of (map (draw_moon s) ms @ ds) = bodies_of ds"
  by (induction ms) (simp_all add: draw_moon_def Let_def)

lemma bodies_of_planets:
  "bodies_of (concat (map (\<lambda>p. Body (f p) # map (draw_moon s) (ms p)) ps)) = map f ps"
  by (induction ps) (simp_all add: bodies_of_moons)

lemma bodies_of_drawn:
  "bodies_of (concat (map (\<lambda>p. Body (draw_planet s p)
                                 # (if show_moons s then map (draw_moon s) (moon_objects p) else []))
                          ps))
     = map (draw_planet s) ps"
proof -
  have "(\<lambda>p. Body (draw_planet s p)
               # (if show_moons s then map (draw_moon s) (moon_objects p) else []))
        = (\<lambda>p. Body (draw_planet s p)
               # map (draw_moon s) (if show_moons s then moon_objects p else []))"
    by (rule ext) simp
  then show ?thesis by (simp only: bodies_of_planets)
qed

text \<open>
  Claim C3. \<open>draw_solar_system\<close> adds one frame, and the bodies of that frame are drawn
  in the order of \<open>planets_sorted\<close>, a stable sort of the planet list by one numeric key.
  In 3D mode that order is ascending in \<open>z\<close>, it is a rearrangement of the list, and the
  bodies of any one \<open>z\<close> keep their order in the list; with 3D mode off the bodies are
  drawn in the order of the list itself.
\<close>

theorem draw_order_stable_sort:
  "frames (draw_solar_system s) = frames s @ [render s]
   \<and> bodies_of (drawn (render s)) = map (draw_planet s) (planets_sorted s)
   \<and> map sprite_name (bodies_of (drawn (render s))) = map planet_name (planets_sorted s)
   \<and> sorted (map planet_z (planets_sorted (s\<lparr>show_3d := True\<rparr>)))
   \<and> mset (planets_sorted (s\<lparr>show_3d := True\<rparr>)) = mset (planets s)
   \<and> (\<forall>k. filter (\<lambda>p. planet_z p = k) (planets_sorted (s\<lparr>show_3d := True\<rparr>))
            = filter (\<lambda>p. planet_z p = k) (planets s))
   \<and> planets_sorted (s\<lparr>show_3d := False\<rparr>) = planets s
   \<and> bodies_of (drawn (render (s\<lparr>show_3d := False\<rparr>)))
       = map (draw_planet (s\<lparr>show_3d := False\<rparr>)) (planets s)"
proof -
  have order: "bodies_of (drawn (render t)) = map (draw_planet t) (planets_sorted t)" for t
    by (simp add: render_def bodies_of_drawn)
  have names: "map sprite_name (map (draw_planet s) ps) = map planet_name ps" for ps
    by (simp add: draw_planet_def Let_def comp_def)
  have flat: "planets_sorted (s\<lparr>show_3d := False\<rparr>) = planets s"
    by (simp add: planets_sorted_def py_sorted_def sort_key_const)
  have "bodies_of (drawn (render (s\<lparr>show_3d := False\<rparr>)))
          = map (draw_planet (s\<lparr>show_3d := False\<rparr>)) (planets s)"
    by (simp only: order flat)
  with order [of s] names [of "planets_sorted s"] flat show ?thesis
    by (simp add: draw_solar_system_def planets_sorted_def py_sorted_def sort_key_stable)
qed




section \<open>Properties of the view state and the scheduler\<close>

text \<open>
  Claim C7, as amended. From every state, \<open>reset_view\<close> sets the zoom factor to 1 and
  the centre to (700, 400), their initial values, sets every body's angle to its
  initial angle, its spin to 0 and every moon's angle to its initial angle, draws
  exactly one frame, with the restored zoom and centre, and leaves the running flag,
  the threads, the time scale, the date and the four visibility toggles as they are.
\<close>

theorem reset_view_effect:
  "zoom_factor (reset_view s) = zoom_factor (init_explorer now ps)
   \<and> center_x (reset_view s) = center_x (init_explorer now ps)
   \<and> center_y (reset_view s) = center_y (init_explorer now ps)
   \<and> zoom_factor (reset_view s) = 1
   \<and> center_x (reset_view s) = 700 \<and> center_y (reset_view s) = 400
   \<and> map planet_angle (planets (reset_view s)) = map initial_angle (planets s)
   \<and> map rotation_angle (planets (reset_view s)) = map (\<lambda>p. 0) (planets s)
   \<and> map (\<lambda>p. map moon_angle (moon_objects p)) (planets (reset_view s))
       = map (\<lambda>p. map moon_initial_angle (moon_objects p)) (planets s)
   \<and> butlast (frames (reset_view s)) = frames s
   \<and> length (frames (reset_view s)) = Suc (length (frames s))
   \<and> frame_zoom (last (frames (reset_view s))) = 1
   \<and> frame_center_x (last (frames (reset_view s))) = 700
   \<and> frame_center_y (last (frames (reset_view s))) = 400
   \<and> is_running (reset_view s) = is_running s
   \<and> threads (reset_view s) = threads s
   \<and> animation_thread (reset_view s) = animation_thread s
   \<and> time_scale (reset_view s) = time_scale s
   \<and> current_date (reset_view s) = current_date s
   \<and> show_orbits (reset_view s) = show_orbits s
   \<and> show_names (reset_view s) = show_names s
   \<and> show_moons (reset_view s) = show_moons s
   \<and> show_3d (reset_view s) = show_3d s"
  by (simp add: reset_view_def init_explorer_def draw_solar_system_def render_def
      planet_reset_position_def moon_reset_position_def Let_def comp_def)

text \<open>
  Claim C7 as written has the reset restore the defaults of the whole view state, the
  time scale among them. After the slider has set the time scale to 5, \<open>reset_view\<close>
  leaves it at 5, not at the initial 1.
\<close>

theorem reset_view_keeps_time_scale:
  "time_scale (reset_view (set_time_scale 5 (init_explorer new_year_2026 []))) = 5
   \<and> time_scale (init_explorer new_year_2026 []) = 1
   \<and> time_scale (reset_view (set_time_scale 5 (init_explorer new_year_2026 [])))
       \<noteq> time_scale (init_explorer new_year_2026 [])"
  by (simp add: reset_view_def set_time_scale_def init_explorer_def draw_solar_system_def)

lemma handle_zoom_pos:
  assumes "0 < zoom_factor s" "\<forall>f\<in>set (frames s). 0 < frame_zoom f"
  shows "0 < zoom_factor (handle s e) \<and> (\<forall>f\<in>set (frames (handle s e)). 0 < frame_zoom f)"
proof (cases e)
  case StartAnimation
  with assms show ?thesis by (simp add: start_animation_def Let_def)
next
  case PauseAnimation
  with assms show ?thesis by (simp add: pause_animation_def)
next
  case ResetView
  with assms show ?thesis by (simp add: reset_view_def draw_solar_system_def render_def)
next
  case ZoomIn
  with assms show ?thesis by (simp add: zoom_in_def draw_solar_system_def render_def)
next
  case ZoomOut
  with assms show ?thesis by (simp add: zoom_out_def draw_solar_system_def render_def)
next
  case (MouseWheel delta)
  with assms show ?thesis by (simp add: on_mouse_wheel_def draw_solar_system_def render_def)
next
  case (SetTimeScale v)
  with assms show ?thesis by (simp add: set_time_scale_def)
next
  case (ToggleOrbits v)
  with assms show ?thesis by (simp add: toggle_orbits_def draw_solar_system_def render_def)
next
  case (ToggleNames v)
  with assms show ?thesis by (simp add: toggle_names_def draw_solar_system_def render_def)
next
  case (ToggleMoons v)
  with assms show ?thesis by (simp add: toggle_moons_def draw_solar_system_def render_def)
next
  case (Toggle3d v)
  with assms show ?thesis by (simp add: toggle_3d_def draw_solar_system_def render_def)
next
  case (AnimateStep i)
  with assms show ?thesis
    by (simp add: animate_step_def tick_def Let_def
        split: thread_status.splits sum.splits)
next
  case UpdateGui
  with assms show ?thesis by (simp add: update_gui_def draw_solar_system_def render_def)
qed

lemma run_zoom_pos:
  "0 < zoom_factor s \<Longrightarrow> \<forall>f\<in>set (frames s). 0 < frame_zoom f \<Longrightarrow>
   0 < zoom_factor (run s es) \<and> (\<forall>f\<in>set (frames (run s es)). 0 < frame_zoom f)"
  unfolding run_def
proof (induction es arbitrary: s)
  case Nil
  then show ?case by simp
next
  case (Cons e es)
  from handle_zoom_pos [OF Cons.prems, of e] Cons.IH [of "handle s e"]
  show ?case by simp
qed

lemma init_zoom_pos:
  "0 < zoom_factor (init_explorer now ps)
   \<and> (\<forall>f\<in>set (frames (init_explorer now ps)). 0 < frame_zoom f)"
  by (simp add: init_explorer_def draw_solar_system_def render_def)

text \<open>
  Claim C8. Starting from the initial zoom factor 1, after every finite sequence of
  events, the calls of \<open>zoom_in\<close>, \<open>zoom_out\<close> and \<open>on_mouse_wheel\<close> among them, the zoom
  factor is positive, and so is the zoom factor of every frame that has been drawn.
\<close>

theorem zoom_always_positive:
  "0 < zoom_factor (run (init_explorer now ps) es)
   \<and> (\<forall>f \<in> set (frames (run (init_explorer now ps) es)). 0 < frame_zoom f)"
  using run_zoom_pos [of "init_explorer now ps" es] init_zoom_pos [of now ps] by blast

text \<open>
  Witness for C8: zooming out with the button, then with the wheel, then in with the
  button draws frames with zoom factors 1, 5/6, 25/33 and 10/11.
\<close>

theorem zoom_always_positive_witness:
  "map frame_zoom (frames (run (init_explorer new_year_2026 []) [ZoomOut, MouseWheel (- 120), ZoomIn]))
     = [1, 5/6, 25/33, 10/11]
   \<and> 0 < zoom_factor (run (init_explorer new_year_2026 []) [ZoomOut, MouseWheel (- 120), ZoomIn])
   \<and> list_all (\<lambda>f. 0 < frame_zoom f)
        (frames (run (init_explorer new_year_2026 []) [ZoomOut, MouseWheel (- 120), ZoomIn]))"
  using zoom_always_positive [of new_year_2026 "[]" "[ZoomOut, MouseWheel (- 120), ZoomIn]"]
  by (simp add: list_all_iff run_def init_explorer_def zoom_in_def zoom_out_def on_mouse_wheel_def
      draw_solar_system_def render_def planets_sorted_def py_sorted_def)

lemma one_handle_init: "one_handle (init_explorer now ps)"
  by (simp add: one_handle_def init_explorer_def draw_solar_system_def)

lemma one_handle_draw: "one_handle (draw_solar_system s) = one_handle s"
  by (simp add: one_handle_def draw_solar_system_def)

lemma one_handle_start: "one_handle s \<Longrightarrow> one_handle (start_animation s)"
  by (auto simp add: one_handle_def start_animation_def thread_is_alive_def Let_def nth_append
      split: option.splits)

lemma one_handle_update:
  assumes "one_handle s" "i < length (threads s)" "threads s ! i \<noteq> Finished"
  shows "one_handle (s\<lparr>threads := (threads s)[i := st]\<rparr>)"
  unfolding one_handle_def
proof (intro allI impI)
  fix j
  assume j: "j < length (threads (s\<lparr>threads := (threads s)[i := st]\<rparr>))"
    and alive: "threads (s\<lparr>threads := (threads s)[i := st]\<rparr>) ! j \<noteq> Finished"
  show "animation_thread (s\<lparr>threads := (threads s)[i := st]\<rparr>) = Some j"
  proof (cases "j = i")
    case True
    with assms show ?thesis by (simp add: one_handle_def)
  next
    case False
    with j alive have "j < length (threads s)" "threads s ! j \<noteq> Finished" by simp_all
    with assms(1) show ?thesis by (simp add: one_handle_def)
  qed
qed

lemma tick_threads:
  "threads (fst (tick s)) = threads s \<and> animation_thread (fst (tick s)) = animation_thread s"
  by (simp add: tick_def Let_def split: sum.splits)

lemma one_handle_tick: "one_handle (fst (tick s)) = one_handle s"
  by (simp add: one_handle_def tick_threads)

lemma one_handle_step: "one_handle s \<Longrightarrow> one_handle (animate_step i s)"
proof -
  assume inv: "one_handle s"
  show ?thesis
  proof (cases "i < length (threads s)")
    case False
    with inv show ?thesis by (simp add: animate_step_def)
  next
    case i: True
    show ?thesis
    proof (cases "threads s ! i")
      case Finished
      with inv i show ?thesis by (simp add: animate_step_def)
    next
      case Leaving
      with inv i show ?thesis by (simp add: animate_step_def one_handle_update)
    next
      case Looping
      show ?thesis
      proof (cases "is_running s")
        case False
        with inv i Looping show ?thesis by (simp add: animate_step_def one_handle_update)
      next
        case True
        obtain s1 err where t: "tick s = (s1, err)" by (cases "tick s")
        then have s1: "s1 = fst (tick s)" by simp
        with inv have inv1: "one_handle s1" by (simp add: one_handle_tick)
        from s1 i Looping have alive: "i < length (threads s1)" "threads s1 ! i \<noteq> Finished"
          by (simp_all add: tick_threads)
        show ?thesis
        proof (cases err)
          case None
          with i Looping True t inv1 show ?thesis by (simp add: animate_step_def)
        next
          case (Some e)
          with i Looping True t one_handle_update [OF inv1 alive, of Finished]
          show ?thesis by (simp add: animate_step_def)
        qed
      qed
    qed
  qed
qed

lemma one_handle_handle: "one_handle s \<Longrightarrow> one_handle (handle s e)"
proof (cases e)
  case StartAnimation
  assume "one_handle s" with StartAnimation show ?thesis by (simp add: one_handle_start)
next
  case (AnimateStep i)
  assume "one_handle s" with AnimateStep show ?thesis by (simp add: one_handle_step)
qed (simp_all add: one_handle_draw reset_view_def zoom_in_def zoom_out_def on_mouse_wheel_def
      toggle_orbits_def toggle_names_def toggle_moons_def toggle_3d_def update_gui_def,
     simp_all add: one_handle_def pause_animation_def set_time_scale_def)

lemma one_handle_run: "one_handle s \<Longrightarrow> one_handle (run s es)"
  unfolding run_def
  by (induction es arbitrary: s) (simp_all add: one_handle_handle)

lemma filter_at_most_one:
  "(\<forall>i<length xs. \<forall>j<length xs. P (xs ! i) \<longrightarrow> P (xs ! j) \<longrightarrow> i = j)
     \<Longrightarrow> length (filter P xs) \<le> 1"
proof (induction xs)
  case Nil
  then show ?case by simp
next
  case (Cons x xs)
  have rest: "\<forall>i<length xs. \<forall>j<length xs. P (xs ! i) \<longrightarrow> P (xs ! j) \<longrightarrow> i = j"
  proof (intro allI impI)
    fix i j assume "i < length xs" "j < length xs" "P (xs ! i)" "P (xs ! j)"
    with Cons.prems have "Suc i = Suc j"
      by (metis length_Cons nth_Cons_Suc Suc_less_eq)
    then show "i = j" by simp
  qed
  show ?case
  proof (cases "P x")
    case False
    with Cons.IH [OF rest] show ?thesis by simp
  next
    case True
    have "filter P xs = []"
    proof (rule ccontr)
      assume "filter P xs \<noteq> []"
      then obtain y where "y \<in> set xs" "P y"
        by (metis filter_empty_conv)
      then obtain j where "j < length xs" "P (xs ! j)"
        by (metis in_set_conv_nth)
      with True Cons.prems have "0 = Suc j"
        by (metis length_Cons nth_Cons_0 nth_Cons_Suc Suc_less_eq zero_less_Suc)
      then show False by simp
    qed
    with True show ?thesis by simp
  qed
qed

lemma one_handle_loops: "one_handle s \<Longrightarrow> running_loops s \<le> 1"
  unfolding running_loops_def
proof (rule filter_at_most_one, intro allI impI)
  fix i j
  assume inv: "one_handle s" and i: "i < length (threads s)" and j: "j < length (threads s)"
    and li: "threads s ! i = Looping" and lj: "threads s ! j = Looping"
  from inv i li have "animation_thread s = Some i" by (simp add: one_handle_def)
  moreover from inv j lj have "animation_thread s = Some j" by (simp add: one_handle_def)
  ultimately show "i = j" by simp
qed

lemma start_when_running: "is_running s \<Longrightarrow> start_animation s = s"
  by (simp add: start_animation_def)

lemma start_sets_running: "is_running (start_animation s)"
  by (simp add: start_animation_def Let_def)

lemma start_twice: "start_animation (start_animation s) = start_animation s"
  by (simp add: start_when_running start_sets_running)

lemma start_twice_initially:
  "running_loops (start_animation (start_animation (init_explorer now ps))) = 1"
  by (simp add: start_twice)
     (simp add: running_loops_def start_animation_def init_explorer_def
      draw_solar_system_def Let_def)

lemma start_from_stopped_one_loop:
  assumes stopped: "\<not> is_running s" and inv: "one_handle s"
    and settled: "Leaving \<notin> set (threads s)"
  shows "running_loops (start_animation s) = 1"
proof (cases "case animation_thread s of None \<Rightarrow> True | Some i \<Rightarrow> \<not> thread_is_alive s i")
  case True
  have "t = Finished" if "t \<in> set (threads s)" for t
  proof (rule ccontr)
    assume nf: "t \<noteq> Finished"
    from that obtain i where i: "i < length (threads s)" "threads s ! i = t"
      by (auto simp add: in_set_conv_nth)
    with inv nf have "animation_thread s = Some i" by (simp add: one_handle_def)
    with True i nf show False by (simp add: thread_is_alive_def)
  qed
  then have "filter (\<lambda>t. t = Looping) (threads s) = []"
    by (auto simp add: filter_empty_conv)
  with stopped True show ?thesis
    by (simp add: running_loops_def start_animation_def thread_is_alive_def Let_def
        split: option.splits)
next
  case False
  then obtain i where h: "animation_thread s = Some i" and alive: "thread_is_alive s i"
    by (auto split: option.splits)
  from alive have i: "i < length (threads s)" and nf: "threads s ! i \<noteq> Finished"
    by (simp_all add: thread_is_alive_def)
  from i settled have "threads s ! i \<noteq> Leaving" by (metis nth_mem)
  with nf have "threads s ! i = Looping" by (cases "threads s ! i") simp_all
  with i have "Looping \<in> set (threads s)" by (metis nth_mem)
  then have "Looping \<in> set (filter (\<lambda>t. t = Looping) (threads s))" by simp
  then have "0 < running_loops s"
    unfolding running_loops_def by (metis length_pos_if_in_set)
  moreover from inv have "running_loops s \<le> 1" by (rule one_handle_loops)
  ultimately have "running_loops s = 1" by simp
  moreover from stopped False have "threads (start_animation s) = threads s"
    by (simp add: start_animation_def Let_def thread_is_alive_def split: option.splits)
  ultimately show ?thesis by (simp add: running_loops_def)
qed

text \<open>
  What holds of the scheduler in every state: \<open>start_animation\<close> leaves the flag set,
  changes nothing when it is already set, and so changes nothing when called a second
  time in a row; \<open>pause_animation\<close> leaves the flag cleared and changes nothing when it
  is already cleared; after two starts from the initial state one thread is in the
  loop, and no sequence of events leaves more than one thread in the loop.
\<close>

lemma scheduler_flag_and_loops:
  "is_running (start_animation s)
   \<and> start_animation (s\<lparr>is_running := True\<rparr>) = s\<lparr>is_running := True\<rparr>
   \<and> start_animation (start_animation s) = start_animation s
   \<and> running_loops (start_animation (start_animation (init_explorer now ps))) = 1
   \<and> running_loops (run (init_explorer now ps) es) \<le> 1
   \<and> \<not> is_running (pause_animation s)
   \<and> pause_animation (s\<lparr>is_running := False\<rparr>) = s\<lparr>is_running := False\<rparr>
   \<and> pause_animation (pause_animation s) = pause_animation s"
proof -
  have inv: "one_handle (run (init_explorer now ps) es)"
    by (rule one_handle_run, rule one_handle_init)
  then have never_two: "running_loops (run (init_explorer now ps) es) \<le> 1"
    by (rule one_handle_loops)
  have start_noop: "start_animation (s\<lparr>is_running := True\<rparr>) = s\<lparr>is_running := True\<rparr>"
    by (simp add: start_when_running)
  have pause_stops: "\<not> is_running (pause_animation s)"
    by (simp add: pause_animation_def)
  have pause_noop: "pause_animation (s\<lparr>is_running := False\<rparr>) = s\<lparr>is_running := False\<rparr>"
    by (simp add: pause_animation_def)
  have pause_twice: "pause_animation (pause_animation s) = pause_animation s"
    by (simp add: pause_animation_def)
  from start_sets_running [of s] start_noop start_twice [of s] start_twice_initially [of now ps]
    never_two pause_stops pause_noop pause_twice
  show ?thesis by blast
qed

text \<open>
  Claim C9 has two starts in a row produce exactly one running loop. The program is
  started on 1 January 2026 with Earth as its planet; the user starts and pauses the animation,
  and the thread finds the flag cleared and leaves its loop but has not ended yet. The
  application is stopped. Two calls of \<open>start_animation\<close> in a row now set the flag,
  find the thread alive and create no thread: no thread is in the loop. The old thread
  then ends, and the application stays flagged as running with no loop, whatever
  further starts are made.
\<close>

theorem start_while_thread_ends:
  "\<not> is_running (run (init_explorer new_year_2026 [earth])
        [StartAnimation, PauseAnimation, AnimateStep 0])
   \<and> threads (run (init_explorer new_year_2026 [earth])
        [StartAnimation, PauseAnimation, AnimateStep 0]) = [Leaving]
   \<and> is_running (run (init_explorer new_year_2026 [earth])
        [StartAnimation, PauseAnimation, AnimateStep 0, StartAnimation, StartAnimation])
   \<and> running_loops (run (init_explorer new_year_2026 [earth])
        [StartAnimation, PauseAnimation, AnimateStep 0, StartAnimation, StartAnimation]) = 0
   \<and> is_running (run (init_explorer new_year_2026 [earth])
        [StartAnimation, PauseAnimation, AnimateStep 0, StartAnimation, StartAnimation,
         AnimateStep 0, StartAnimation])
   \<and> threads (run (init_explorer new_year_2026 [earth])
        [StartAnimation, PauseAnimation, AnimateStep 0, StartAnimation, StartAnimation,
         AnimateStep 0, StartAnimation]) = [Finished]
   \<and> running_loops (run (init_explorer new_year_2026 [earth])
        [StartAnimation, PauseAnimation, AnimateStep 0, StartAnimation, StartAnimation,
         AnimateStep 0, StartAnimation]) = 0"
  by (simp add: run_def init_explorer_def draw_solar_system_def start_animation_def
      pause_animation_def animate_step_def thread_is_alive_def running_loops_def Let_def)

text \<open>
  The date arithmetic of the loop body ends the thread in the same way. Started at the
  last representable instant, the first pass of the loop raises \<open>OverflowError\<close>: the
  thread ends with the flag still set.
\<close>

lemma tick_overflow_ends_thread:
  "is_running (run (init_explorer datetime_max []) [StartAnimation, AnimateStep 0])
   \<and> threads (run (init_explorer datetime_max []) [StartAnimation, AnimateStep 0]) = [Finished]
   \<and> running_loops (run (init_explorer datetime_max []) [StartAnimation, AnimateStep 0]) = 0"
  by (simp add: run_def init_explorer_def draw_solar_system_def start_animation_def
      animate_step_def tick_def timedelta_days_def datetime_add_def datetime_max_def
      round_half_even_def thread_is_alive_def running_loops_def Let_def)


section \<open>Properties of the double arithmetic\<close>

lemma round_half_even_near:
  assumes "\<bar>v - of_int m\<bar> < 1/2"
  shows "round_half_even v = m"
proof (cases "of_int m \<le> v")
  case True
  with assms have "\<lfloor>v\<rfloor> = m" by (intro floor_unique) auto
  with assms True show ?thesis by (simp add: round_half_even_def Let_def)
next
  case False
  with assms have "\<lfloor>v\<rfloor> = m - 1" by (intro floor_unique) auto
  with assms False show ?thesis by (simp add: round_half_even_def Let_def)
qed

lemma double_exponent_eq:
  assumes "2 powr of_int e \<le> \<bar>v\<bar>" and "\<bar>v\<bar> < 2 powr of_int (e + 1)" and "- 1022 \<le> e"
  shows "double_exponent v = e"
proof -
  have pos: "0 < \<bar>v\<bar>" using assms(1) by (smt (verit) powr_gt_zero)
  have "of_int e \<le> log 2 \<bar>v\<bar>" using assms(1) pos by (simp add: le_log_iff)
  moreover have "log 2 \<bar>v\<bar> < of_int e + 1" using assms(2) pos by (simp add: log_less_iff)
  ultimately have "\<lfloor>log 2 \<bar>v\<bar>\<rfloor> = e" by (rule floor_unique)
  with assms(3) show ?thesis by (simp add: double_exponent_def)
qed

text \<open>
  How a rounding is evaluated: for \<open>v\<close> with \<open>2 ^ e \<le> |v| < 2 ^ (e + 1)\<close> the doubles
  around \<open>v\<close> are the multiples of \<open>2 ^ (e - 52)\<close>, and \<open>v\<close> rounds to the multiple less
  than half a step away.
\<close>

lemma round_double_eq:
  assumes "2 powr of_int e \<le> \<bar>v\<bar>" and "\<bar>v\<bar> < 2 powr of_int (e + 1)" and "- 1022 \<le> e"
    and "\<bar>v / 2 powr of_int (e - 52) - of_int m\<bar> < 1/2"
  shows "round_double v = of_int m * 2 powr of_int (e - 52)"
proof -
  have "v \<noteq> 0" using assms(1) by (smt (verit) powr_gt_zero)
  moreover have "double_exponent v = e" using assms(1-3) by (rule double_exponent_eq)
  moreover have "round_half_even (v / 2 powr of_int (e - 52)) = m"
    using assms(4) by (rule round_half_even_near)
  ultimately show ?thesis by (simp add: round_double_def Let_def)
qed

text \<open>An integer below \<open>2 ^ 53\<close> in magnitude is a double.\<close>

lemma round_double_of_int:
  assumes "\<bar>k\<bar> < 2 ^ 53"
  shows "round_double (of_int k) = of_int k"
proof (cases "k = 0")
  case True
  then show ?thesis by (simp add: round_double_def)
next
  case False
  define e where "e = \<lfloor>log 2 \<bar>real_of_int k\<bar>\<rfloor>"
  have pos: "1 \<le> \<bar>real_of_int k\<bar>" using False by (simp flip: of_int_abs)
  have lo: "2 powr of_int e \<le> \<bar>real_of_int k\<bar>"
    using pos by (simp add: e_def flip: le_log_iff)
  have hi: "\<bar>real_of_int k\<bar> < 2 powr of_int (e + 1)"
    using pos by (simp add: e_def flip: log_less_iff)
  have e0: "0 \<le> e" using pos by (simp add: e_def)
  have "\<bar>real_of_int k\<bar> < 2 powr 53"
    using assms by (simp flip: of_int_abs)
  then have "log 2 \<bar>real_of_int k\<bar> < 53" using pos by (simp add: log_less_iff)
  then have e52: "e \<le> 52" by (simp add: e_def floor_le_iff)
  define n where "n = nat (52 - e)"
  have q: "(2::real) powr of_int (e - 52) = 1 / 2 ^ n"
  proof (cases "e = 52")
    case True
    then show ?thesis by (simp add: n_def)
  next
    case False
    with e52 have "e - 52 < 0" by simp
    then have "(2::real) powr of_int (e - 52) = inverse (2 ^ nat (- (e - 52)))"
      using powr_real_of_int [of 2 "e - 52"] by (simp del: of_int_diff)
    then show ?thesis by (simp add: n_def inverse_eq_divide del: of_int_diff)
  qed
  have "\<bar>real_of_int k / 2 powr of_int (e - 52) - of_int (k * 2 ^ n)\<bar> < 1/2"
    by (simp only: q) simp
  from round_double_eq [OF lo hi _ this] e0
  have "round_double (of_int k) = of_int (k * 2 ^ n) * 2 powr of_int (e - 52)" by simp
  then show ?thesis by (simp only: q) simp
qed


lemma round_double_zero: "round_double 0 = 0"
  by (simp add: round_double_def)

lemma round_double_one: "round_double 1 = 1"
  using round_double_of_int [of 1] by simp

lemma round_double_numeral:
  "(numeral n :: int) < 2 ^ 53 \<Longrightarrow> round_double (numeral n) = numeral n"
  using round_double_of_int [of "numeral n"] by simp

lemma round_double_neg_numeral:
  "(numeral n :: int) < 2 ^ 53 \<Longrightarrow> round_double (- numeral n) = - numeral n"
  using round_double_of_int [of "- numeral n"] by simp

text \<open>The rounding of a square root, from bounds on the squares.\<close>

lemma round_double_sqrt_eq:
  assumes "(2 powr of_int e)\<^sup>2 \<le> v" and "v < (2 powr of_int (e + 1))\<^sup>2" and "- 1022 \<le> e"
    and "0 < m"
    and "((of_int m - 1/2) * 2 powr of_int (e - 52))\<^sup>2 < v"
    and "v < ((of_int m + 1/2) * 2 powr of_int (e - 52))\<^sup>2"
  shows "round_double (sqrt v) = of_int m * 2 powr of_int (e - 52)"
proof -
  let ?q = "2 powr real_of_int (e - 52)"
  have q: "0 < ?q" by simp
  have v0: "0 \<le> v" using assms(1) by (smt (verit) zero_le_power2)
  have abs: "\<bar>sqrt v\<bar> = sqrt v" using v0 by simp
  have "2 powr of_int e \<le> sqrt v"
    using assms(1) by (rule real_le_rsqrt)
  then have lo: "2 powr of_int e \<le> \<bar>sqrt v\<bar>" by (simp only: abs)
  have "sqrt v < 2 powr of_int (e + 1)"
    using assms(2) by (intro real_less_lsqrt) simp_all
  then have hi: "\<bar>sqrt v\<bar> < 2 powr of_int (e + 1)" by (simp only: abs)
  have a: "(of_int m - 1/2) * ?q < sqrt v"
    using assms(5) by (rule real_less_rsqrt)
  have "0 \<le> (of_int m + 1/2) * ?q" using assms(4) by simp
  with assms(6) have b: "sqrt v < (of_int m + 1/2) * ?q"
    by (intro real_less_lsqrt) simp_all
  from a q have a': "of_int m - 1/2 < sqrt v / ?q" by (simp add: pos_less_divide_eq)
  from b q have b': "sqrt v / ?q < of_int m + 1/2" by (simp add: pos_divide_less_eq)
  from a' b' have "\<bar>sqrt v / ?q - of_int m\<bar> < 1/2" by linarith
  from round_double_eq [OF lo hi assms(3) this] show ?thesis .
qed

text \<open>The roundings met in the examples below.\<close>

lemma double_r4: "round_double (1 / 2) = 1 / 2"
  using round_double_eq [of "- 1" "1 / 2" "4503599627370496"] by (simp add: powr_neg_numeral)

lemma double_r5: "round_double (1 / 4) = 1 / 4"
  using round_double_eq [of "- 2" "1 / 4" "4503599627370496"] by (simp add: powr_neg_numeral)

lemma double_r6: "round_double (sqrt (1 / 4)) = 1 / 2"
  using round_double_sqrt_eq [of "- 1" "1 / 4" "4503599627370496"] by (simp add: powr_neg_numeral power2_eq_square)

lemma double_r7: "round_double (7 / 10) = 3152519739159347 / 4503599627370496"
  using round_double_eq [of "- 1" "7 / 10" "6305039478318694"] by (simp add: powr_neg_numeral)

lemma double_r8: "round_double (3 / 10) = 5404319552844595 / 18014398509481984"
  using round_double_eq [of "- 2" "3 / 10" "5404319552844595"] by (simp add: powr_neg_numeral)

lemma double_r9: "round_double (3152519739159347 / 9007199254740992) = 3152519739159347 / 9007199254740992"
  using round_double_eq [of "- 2" "3152519739159347 / 9007199254740992" "6305039478318694"] by (simp add: powr_neg_numeral)

lemma double_r10: "round_double (5854679515581645 / 9007199254740992) = 5854679515581645 / 9007199254740992"
  using round_double_eq [of "- 1" "5854679515581645 / 9007199254740992" "5854679515581645"] by (simp add: powr_neg_numeral)

lemma double_r12: "round_double (1492943276473319475 / 9007199254740992) = 663 / 4"
  using round_double_eq [of "7" "1492943276473319475 / 9007199254740992" "5831809673723904"] by (simp add: powr_neg_numeral)

lemma double_r15: "round_double (- (5 / 6)) = - (7505999378950827 / 9007199254740992)"
  using round_double_eq [of "- 1" "- (5 / 6)" "- 7505999378950827"] by (simp add: powr_neg_numeral)

lemma double_r16: "round_double (56340026676810200626075283983929 / 81129638414606681695789005144064) = 6254999482459023 / 9007199254740992"
  using round_double_eq [of "- 1" "56340026676810200626075283983929 / 81129638414606681695789005144064" "6254999482459023"] by (simp add: powr_neg_numeral)

lemma double_r17: "round_double (6254999482459023 / 9007199254740992) = 6254999482459023 / 9007199254740992"
  using round_double_eq [of "- 1" "6254999482459023 / 9007199254740992" "6254999482459023"] by (simp add: powr_neg_numeral)

lemma double_r18: "round_double (sqrt (6254999482459023 / 9007199254740992)) = 7505999378950827 / 9007199254740992"
  using round_double_sqrt_eq [of "- 1" "6254999482459023 / 9007199254740992" "7505999378950827"] by (simp add: powr_neg_numeral power2_eq_square)

lemma double_r19: "round_double (23662811204260281710911830429969 / 40564819207303340847894502572032) = 5254199565265579 / 9007199254740992"
  using round_double_eq [of "- 1" "23662811204260281710911830429969 / 40564819207303340847894502572032" "5254199565265579"] by (simp add: powr_neg_numeral)

lemma double_r20: "round_double (3752999689475413 / 9007199254740992) = 3752999689475413 / 9007199254740992"
  using round_double_eq [of "- 2" "3752999689475413 / 9007199254740992" "7505999378950826"] by (simp add: powr_neg_numeral)

lemma double_r22: "round_double (33776997205278717 / 2251799813685248) = 8444249301319679 / 562949953421312"
  using round_double_eq [of "3" "33776997205278717 / 2251799813685248" "8444249301319679"] by (simp add: powr_neg_numeral)

lemma double_r24: "round_double (33776997205278717 / 1125899906842624) = 8444249301319679 / 281474976710656"
  using round_double_eq [of "4" "33776997205278717 / 1125899906842624" "8444249301319679"] by (simp add: powr_neg_numeral)

lemma double_r26: "round_double (101330991615836151 / 2251799813685248) = 6333186975989759 / 140737488355328"
  using round_double_eq [of "5" "101330991615836151 / 2251799813685248" "6333186975989759"] by (simp add: powr_neg_numeral)


lemmas double_roundings =
  double_r4 double_r5 double_r6 double_r7 double_r8 double_r9
  double_r10 double_r12 double_r15 double_r16 double_r17 double_r18
  double_r19 double_r20 double_r22 double_r24 double_r26


section \<open>Properties of the shading\<close>

lemma shade_row_pixels:
  "img_pixels (foldl (\<lambda>im x. im\<lparr>img_pixels := (img_pixels im)((x, y) :=
                         shade_pixel w h x y (img_pixels im (x, y)))\<rparr>) img [0..<n]) (x', y')
     = (if y' = y \<and> x' < n then shade_pixel w h x' y (img_pixels img (x', y'))
        else img_pixels img (x', y'))"
  by (induction n) (auto simp add: less_Suc_eq)

lemma shade_row_pixel:
  "img_pixels (shade_row w h y img) (x', y')
     = (if y' = y \<and> x' < w then shade_pixel w h x' y (img_pixels img (x', y'))
        else img_pixels img (x', y'))"
  unfolding shade_row_def by (rule shade_row_pixels)

lemma shade_rows_pixel:
  "img_pixels (foldl (\<lambda>im y. shade_row w h y im) img [0..<n]) (x', y')
     = (if y' < n \<and> x' < w then shade_pixel w h x' y' (img_pixels img (x', y'))
        else img_pixels img (x', y'))"
  by (induction n) (auto simp add: shade_row_pixel less_Suc_eq)

lemma texture_pixel_eq:
  "texture_pixel img x y
     = Some (if x < img_width img \<and> y < img_height img
             then shade_pixel (img_width img) (img_height img) x y (img_pixels img (x, y))
             else img_pixels img (x, y))"
  by (auto simp add: texture_pixel_def create_texture_map_def Let_def shade_rows_pixel)








lemma shade_pixel_brown12_1_6: "shade_pixel 12 12 1 6 (36, 72, 108, 200) = (14, 29, 44, 200)"
  by (simp add: shade_pixel_def Let_def py_int_def round_double_zero round_double_one
      round_double_numeral round_double_neg_numeral double_roundings)




text \<open>
  A pixel where the rounding decides: at (1, 6) of a 12 by 12 image the intensity is the
  double just below 5/12, and the channels 36, 72 and 108 become 14, 29 and 44, one
  less than exact arithmetic would give.
\<close>

lemma texture_pixel_brown12_1_6: "texture_pixel brown12 1 6 = Some (14, 29, 44, 200)"
proof -
  have "texture_pixel brown12 1 6 = Some (shade_pixel 12 12 1 6 (36, 72, 108, 200))"
    by (simp add: texture_pixel_eq brown12_def del: One_nat_def)
  then show ?thesis by (simp only: shade_pixel_brown12_1_6)
qed

end
